theory Spec2Isabelle
  imports Main "HOL-Library.Word"
begin

section \<open>Data model of the BME280 driver\<close>

type_synonym u8 = "8 word"
type_synonym u32 = "32 word"
type_synonym i32 = "32 word"

text \<open>
  Modelled from the spec: \<^verbatim>\<open>Status.h\<close> is not among the sources. The closed set of
  classifications is the one the example front end enumerates (\<^verbatim>\<open>errToStr\<close> in
  \<^verbatim>\<open>main.cpp\<close>); a result carries a classification, a numeric detail and a message.
\<close>

datatype Err =
    OK
  | NOT_INITIALIZED
  | INVALID_CONFIG
  | I2C_ERROR
  | TIMEOUT
  | INVALID_PARAM
  | DEVICE_NOT_FOUND
  | CHIP_ID_MISMATCH
  | CALIBRATION_INVALID
  | MEASUREMENT_NOT_READY
  | COMPENSATION_ERROR
  | BUSY
  | IN_PROGRESS

record Status =
  code :: Err
  detail :: i32
  msg :: string

text \<open>
  Modelled from the spec: \<^verbatim>\<open>Status::Ok()\<close>, \<^verbatim>\<open>Status::Error(code, msg, detail)\<close> (the
  detail is 0 where the source leaves it out) and \<^verbatim>\<open>ok()\<close>, which "returns true iff
  classification is the sentinel".
\<close>

definition Status_Ok :: Status where
  "Status_Ok = \<lparr>code = OK, detail = 0, msg = []\<rparr>"

definition Status_Error :: "Err \<Rightarrow> string \<Rightarrow> i32 \<Rightarrow> Status" where
  "Status_Error e m dt = \<lparr>code = e, detail = dt, msg = m\<rparr>"

definition ok :: "Status \<Rightarrow> bool" where
  "ok st \<longleftrightarrow> code st = OK"

text \<open>
  A pointer to bytes is \<open>None\<close> for \<^verbatim>\<open>nullptr\<close> and \<open>Some bs\<close> for a pointer to
  the bytes \<open>bs\<close>; the length argument travels beside it, as in the source.

  The two injected transport capabilities are functions of the source's arguments and of the
  outside world \<open>'w\<close> (the bus, the clock, whatever the callback touches); they return the
  result and the world afterwards. The write-then-read capability also returns the bytes it
  stored at the front of the receive buffer. The driver object itself is not part of \<open>'w\<close>:
  a callback does not call back into the driver.
\<close>

type_synonym ptr = "u8 list option"

type_synonym ('u, 'w) i2c_write =
  "u8 \<Rightarrow> ptr \<Rightarrow> nat \<Rightarrow> u32 \<Rightarrow> 'u \<Rightarrow> 'w \<Rightarrow> Status \<times> 'w"

type_synonym ('u, 'w) i2c_write_read =
  "u8 \<Rightarrow> ptr \<Rightarrow> nat \<Rightarrow> ptr \<Rightarrow> nat \<Rightarrow> u32 \<Rightarrow> 'u \<Rightarrow> 'w \<Rightarrow> Status \<times> u8 list \<times> 'w"

text \<open>
  Modelled from the spec: \<^verbatim>\<open>Config.h\<close> is not among the sources. The fields are the ones
  \<^verbatim>\<open>BME280.cpp\<close> reads; a capability that is not set is \<open>None\<close>.
\<close>

record ('u, 'w) Config =
  i2cWrite :: "('u, 'w) i2c_write option"
  i2cWriteRead :: "('u, 'w) i2c_write_read option"
  i2cAddress :: u8
  i2cTimeoutMs :: u32
  i2cUser :: 'u
  offlineThreshold :: u8

datatype DriverState = UNINIT | READY | DEGRADED | OFFLINE

record ('u, 'w) BME280 =
  config :: "('u, 'w) Config"
  initialized :: bool
  driverState :: DriverState
  lastOkMs :: u32
  lastErrorMs :: u32
  lastError :: Status
  consecutiveFailures :: u8
  totalFailures :: u32
  totalSuccess :: u32

text \<open>The object as its member initialisers leave it, around a default configuration.\<close>

definition new_BME280 :: "('u, 'w) Config \<Rightarrow> ('u, 'w) BME280" where
  "new_BME280 c =
     \<lparr>config = c, initialized = False, driverState = UNINIT, lastOkMs = 0,
      lastErrorMs = 0, lastError = Status_Ok, consecutiveFailures = 0,
      totalFailures = 0, totalSuccess = 0\<rparr>"

definition MAX_WRITE_LEN :: nat where
  "MAX_WRITE_LEN = 16"

definition maxU32 :: u32 where
  "maxU32 = 4294967295"

definition maxU8 :: u8 where
  "maxU8 = 255"

section \<open>Lifecycle\<close>

definition begin_BME280 ::
  "('u, 'w) BME280 \<Rightarrow> ('u, 'w) Config \<Rightarrow> Status \<times> ('u, 'w) BME280" where
  "begin_BME280 d cfg =
     (let d0 = d\<lparr>initialized := False, driverState := UNINIT, lastOkMs := 0,
                 lastErrorMs := 0, lastError := Status_Ok, consecutiveFailures := 0,
                 totalFailures := 0, totalSuccess := 0\<rparr>
      in if i2cWrite cfg = None \<or> i2cWriteRead cfg = None
         then (Status_Error INVALID_CONFIG ''I2C callbacks not set'' 0, d0)
         else if i2cTimeoutMs cfg = 0
         then (Status_Error INVALID_CONFIG ''I2C timeout must be > 0'' 0, d0)
         else
           (let c = (if offlineThreshold cfg = 0 then cfg\<lparr>offlineThreshold := 1\<rparr> else cfg)
            in (Status_Ok, d0\<lparr>config := c, initialized := True, driverState := READY\<rparr>)))"

definition tick :: "('u, 'w) BME280 \<Rightarrow> u32 \<Rightarrow> ('u, 'w) BME280" where
  "tick d nowMs = d"

definition end_BME280 :: "('u, 'w) BME280 \<Rightarrow> ('u, 'w) BME280" where
  "end_BME280 d = d\<lparr>initialized := False, driverState := UNINIT\<rparr>"

section \<open>Health state machine\<close>

text \<open>\<open>millis\<close> is the platform clock, read from the outside world.\<close>

definition updateHealth ::
  "('w \<Rightarrow> u32) \<Rightarrow> ('u, 'w) BME280 \<Rightarrow> Status \<Rightarrow> 'w \<Rightarrow> Status \<times> ('u, 'w) BME280" where
  "updateHealth millis d st w =
     (if \<not> initialized d then (st, d)
      else
        (let now = millis w in
         if ok st then
           (st, d\<lparr>lastOkMs := now,
                  totalSuccess := (if totalSuccess d < maxU32 then totalSuccess d + 1
                                   else totalSuccess d),
                  consecutiveFailures := 0,
                  driverState := READY\<rparr>)
         else
           (let cf = (if consecutiveFailures d < maxU8 then consecutiveFailures d + 1
                      else consecutiveFailures d)
            in (st, d\<lparr>lastError := st,
                      lastErrorMs := now,
                      totalFailures := (if totalFailures d < maxU32 then totalFailures d + 1
                                        else totalFailures d),
                      consecutiveFailures := cf,
                      driverState := (if cf \<ge> offlineThreshold (config d) then OFFLINE
                                      else DEGRADED)\<rparr>))))"

section \<open>Transport wrappers\<close>

text \<open>
  What a receive buffer holds after the capability stored \<open>wr\<close> at its front: at most
  \<open>rxLen\<close> bytes are stored, the rest of the buffer keeps what it held.
\<close>

definition rx_store :: "ptr \<Rightarrow> nat \<Rightarrow> u8 list \<Rightarrow> ptr" where
  "rx_store rxBuf rxLen wr =
     (case rxBuf of
        None \<Rightarrow> None
      | Some old \<Rightarrow>
          (let got = take (min rxLen (length old)) wr
           in Some (got @ drop (length got) old)))"

definition i2cWriteReadRaw ::
  "('u, 'w) BME280 \<Rightarrow> ptr \<Rightarrow> nat \<Rightarrow> ptr \<Rightarrow> nat \<Rightarrow> 'w \<Rightarrow> Status \<times> ptr \<times> 'w" where
  "i2cWriteReadRaw d txBuf txLen rxBuf rxLen w =
     (case i2cWriteRead (config d) of
        None \<Rightarrow> (Status_Error INVALID_CONFIG ''I2C write-read not set'' 0, rxBuf, w)
      | Some f \<Rightarrow>
          (case f (i2cAddress (config d)) txBuf txLen rxBuf rxLen
                  (i2cTimeoutMs (config d)) (i2cUser (config d)) w of
             (st, wr, w') \<Rightarrow> (st, rx_store rxBuf rxLen wr, w')))"

definition i2cWriteRaw ::
  "('u, 'w) BME280 \<Rightarrow> ptr \<Rightarrow> nat \<Rightarrow> 'w \<Rightarrow> Status \<times> 'w" where
  "i2cWriteRaw d buf len w =
     (case i2cWrite (config d) of
        None \<Rightarrow> (Status_Error INVALID_CONFIG ''I2C write not set'' 0, w)
      | Some f \<Rightarrow>
          f (i2cAddress (config d)) buf len (i2cTimeoutMs (config d)) (i2cUser (config d)) w)"

text \<open>The classifications the tracked wrappers keep out of the health accounting.\<close>

definition untracked :: "Status \<Rightarrow> bool" where
  "untracked st \<longleftrightarrow>
     code st = INVALID_CONFIG \<or> code st = INVALID_PARAM \<or> code st = NOT_INITIALIZED"

definition i2cWriteReadTracked ::
  "('w \<Rightarrow> u32) \<Rightarrow> ('u, 'w) BME280 \<Rightarrow> ptr \<Rightarrow> nat \<Rightarrow> ptr \<Rightarrow> nat \<Rightarrow> 'w
     \<Rightarrow> Status \<times> ptr \<times> ('u, 'w) BME280 \<times> 'w" where
  "i2cWriteReadTracked millis d txBuf txLen rxBuf rxLen w =
     (if \<not> initialized d
      then (Status_Error NOT_INITIALIZED ''begin() not called'' 0, rxBuf, d, w)
      else if txBuf = None \<or> txLen = 0 \<or> (rxLen > 0 \<and> rxBuf = None)
      then (Status_Error INVALID_PARAM ''Invalid I2C buffer'' 0, rxBuf, d, w)
      else
        (case i2cWriteReadRaw d txBuf txLen rxBuf rxLen w of
           (st, rx, w') \<Rightarrow>
             if untracked st then (st, rx, d, w')
             else (case updateHealth millis d st w' of (st', d') \<Rightarrow> (st', rx, d', w'))))"

definition i2cWriteTracked ::
  "('w \<Rightarrow> u32) \<Rightarrow> ('u, 'w) BME280 \<Rightarrow> ptr \<Rightarrow> nat \<Rightarrow> 'w
     \<Rightarrow> Status \<times> ('u, 'w) BME280 \<times> 'w" where
  "i2cWriteTracked millis d buf len w =
     (if \<not> initialized d
      then (Status_Error NOT_INITIALIZED ''begin() not called'' 0, d, w)
      else if buf = None \<or> len = 0
      then (Status_Error INVALID_PARAM ''Invalid I2C buffer'' 0, d, w)
      else
        (case i2cWriteRaw d buf len w of
           (st, w') \<Rightarrow>
             if untracked st then (st, d, w')
             else (case updateHealth millis d st w' of (st', d') \<Rightarrow> (st', d', w'))))"

section \<open>Register access\<close>

definition readRegs ::
  "('w \<Rightarrow> u32) \<Rightarrow> ('u, 'w) BME280 \<Rightarrow> u8 \<Rightarrow> ptr \<Rightarrow> nat \<Rightarrow> 'w
     \<Rightarrow> Status \<times> ptr \<times> ('u, 'w) BME280 \<times> 'w" where
  "readRegs millis d startReg buf len w =
     (if \<not> initialized d
      then (Status_Error NOT_INITIALIZED ''begin() not called'' 0, buf, d, w)
      else if buf = None \<or> len = 0
      then (Status_Error INVALID_PARAM ''Invalid read buffer'' 0, buf, d, w)
      else i2cWriteReadTracked millis d (Some [startReg]) 1 buf len w)"

text \<open>
  \<^verbatim>\<open>memcpy(&dst[off], src, n)\<close>, for a source that holds at least \<open>n\<close> bytes and a
  destination that holds at least \<open>off + n\<close>.
\<close>

definition memcpy_at :: "u8 list \<Rightarrow> nat \<Rightarrow> u8 list \<Rightarrow> nat \<Rightarrow> u8 list" where
  "memcpy_at dst off src n = take off dst @ take n src @ drop (off + n) dst"

definition writeRegs ::
  "('w \<Rightarrow> u32) \<Rightarrow> ('u, 'w) BME280 \<Rightarrow> u8 \<Rightarrow> ptr \<Rightarrow> nat \<Rightarrow> 'w
     \<Rightarrow> Status \<times> ('u, 'w) BME280 \<times> 'w" where
  "writeRegs millis d startReg buf len w =
     (if \<not> initialized d
      then (Status_Error NOT_INITIALIZED ''begin() not called'' 0, d, w)
      else
        (case buf of
           None \<Rightarrow> (Status_Error INVALID_PARAM ''Invalid write buffer'' 0, d, w)
         | Some bs \<Rightarrow>
             if len = 0
             then (Status_Error INVALID_PARAM ''Invalid write buffer'' 0, d, w)
             else if len > MAX_WRITE_LEN
             then (Status_Error INVALID_PARAM ''Write length too large'' 0, d, w)
             else
               (let payload = (replicate (MAX_WRITE_LEN + 1) 0)[0 := startReg];
                    payload = memcpy_at payload 1 bs len
                in i2cWriteTracked millis d (Some payload) (len + 1) w)))"

section \<open>Diagnostic probe and recovery\<close>

text \<open>
  \<^verbatim>\<open>CommandTable.h\<close> is not among the sources: the identity register's address
  \<open>REG_CHIP_ID\<close> and the expected identity \<open>CHIP_ID_BME280\<close> are parameters.
  The local \<^verbatim>\<open>id\<close> starts as 0 and is read back from the one-byte receive buffer.
\<close>

definition id_of :: "ptr \<Rightarrow> u8" where
  "id_of rx = (case rx of Some (b # _) \<Rightarrow> b | _ \<Rightarrow> 0)"

definition probe ::
  "u8 \<Rightarrow> u8 \<Rightarrow> ('u, 'w) BME280 \<Rightarrow> 'w \<Rightarrow> Status \<times> ('u, 'w) BME280 \<times> 'w" where
  "probe REG_CHIP_ID CHIP_ID_BME280 d w =
     (if \<not> initialized d
      then (Status_Error NOT_INITIALIZED ''begin() not called'' 0, d, w)
      else
        (case i2cWriteReadRaw d (Some [REG_CHIP_ID]) 1 (Some [0]) 1 w of
           (st, rx, w') \<Rightarrow>
             if \<not> ok st then (st, d, w')
             else if id_of rx \<noteq> CHIP_ID_BME280
             then (Status_Error CHIP_ID_MISMATCH ''Chip ID mismatch'' (ucast (id_of rx)), d, w')
             else (Status_Ok, d, w')))"

definition recover ::
  "('w \<Rightarrow> u32) \<Rightarrow> u8 \<Rightarrow> u8 \<Rightarrow> ('u, 'w) BME280 \<Rightarrow> 'w
     \<Rightarrow> Status \<times> ('u, 'w) BME280 \<times> 'w" where
  "recover millis REG_CHIP_ID CHIP_ID_BME280 d w =
     (if \<not> initialized d
      then (Status_Error NOT_INITIALIZED ''begin() not called'' 0, d, w)
      else
        (case i2cWriteReadTracked millis d (Some [REG_CHIP_ID]) 1 (Some [0]) 1 w of
           (st, rx, d', w') \<Rightarrow>
             if \<not> ok st then (st, d', w')
             else if id_of rx \<noteq> CHIP_ID_BME280
             then (Status_Error CHIP_ID_MISMATCH ''Chip ID mismatch'' (ucast (id_of rx)), d', w')
             else (Status_Ok, d', w')))"

section \<open>Sequences of operations\<close>

text \<open>
  The operations a caller or an upper layer can issue on a driver between initialisation and
  shutdown: the two diagnostics, the register accesses, the tracked wrappers themselves and
  the periodic hook.
\<close>

datatype op =
    Probe
  | Recover
  | ReadRegs u8 ptr nat
  | WriteRegs u8 ptr nat
  | WriteReadTracked ptr nat ptr nat
  | WriteTracked ptr nat
  | Tick u32

fun step ::
  "('w \<Rightarrow> u32) \<Rightarrow> u8 \<Rightarrow> u8 \<Rightarrow> op \<Rightarrow> ('u, 'w) BME280 \<Rightarrow> 'w \<Rightarrow> ('u, 'w) BME280 \<times> 'w" where
  "step millis rg cid Probe d w = snd (probe rg cid d w)"
| "step millis rg cid Recover d w = snd (recover millis rg cid d w)"
| "step millis rg cid (ReadRegs r b n) d w = snd (snd (readRegs millis d r b n w))"
| "step millis rg cid (WriteRegs r b n) d w = snd (writeRegs millis d r b n w)"
| "step millis rg cid (WriteReadTracked t tn r rn) d w =
     snd (snd (i2cWriteReadTracked millis d t tn r rn w))"
| "step millis rg cid (WriteTracked b n) d w = snd (i2cWriteTracked millis d b n w)"
| "step millis rg cid (Tick nowMs) d w = (tick d nowMs, w)"

fun run ::
  "('w \<Rightarrow> u32) \<Rightarrow> u8 \<Rightarrow> u8 \<Rightarrow> op list \<Rightarrow> ('u, 'w) BME280 \<Rightarrow> 'w \<Rightarrow> ('u, 'w) BME280 \<times> 'w" where
  "run millis rg cid [] d w = (d, w)"
| "run millis rg cid (x # xs) d w =
     (case step millis rg cid x d w of (d', w') \<Rightarrow> run millis rg cid xs d' w')"

text \<open>
  The agreement between the state and the consecutive-failure count that the comments on
  \<^verbatim>\<open>DriverState\<close> describe.
\<close>

definition health_consistent :: "('u, 'w) BME280 \<Rightarrow> bool" where
  "health_consistent d \<longleftrightarrow>
     ((driverState d = READY) = (consecutiveFailures d = 0))
     \<and> ((driverState d = DEGRADED) =
          (1 \<le> consecutiveFailures d \<and> consecutiveFailures d < offlineThreshold (config d)))
     \<and> ((driverState d = OFFLINE) = (offlineThreshold (config d) \<le> consecutiveFailures d))"

text \<open>
  What a successful initialisation establishes and every later operation keeps: the driver is
  initialised, the stored threshold is at least 1, and state and count agree.
\<close>

definition health_inv :: "('u, 'w) BME280 \<Rightarrow> bool" where
  "health_inv d \<longleftrightarrow>
     initialized d \<and> 1 \<le> offlineThreshold (config d) \<and> health_consistent d"

text \<open>A failure that the tracked wrappers forward into the health accounting.\<close>

definition tracked_failure :: "Status \<Rightarrow> bool" where
  "tracked_failure st \<longleftrightarrow> \<not> ok st \<and> \<not> untracked st"

section \<open>A scripted bus for concrete runs\<close>

text \<open>
  A transport mock: the world holds a clock, the replies the bus will give (a result and the
  bytes read) and the frames that reached the bus so far (address and transmitted bytes).
\<close>

record sim =
  sim_now :: u32
  sim_replies :: "(Status \<times> u8 list) list"
  sim_frames :: "(u8 \<times> u8 list) list"

definition sim_millis :: "sim \<Rightarrow> u32" where
  "sim_millis w = sim_now w"

definition sim_bytes :: "ptr \<Rightarrow> nat \<Rightarrow> u8 list" where
  "sim_bytes buf len = (case buf of None \<Rightarrow> [] | Some bs \<Rightarrow> take len bs)"

definition sim_writeRead :: "(unit, sim) i2c_write_read" where
  "sim_writeRead addr txBuf txLen rxBuf rxLen tmo user w =
     (let w1 = w\<lparr>sim_frames := sim_frames w @ [(addr, sim_bytes txBuf txLen)]\<rparr>
      in case sim_replies w of
           [] \<Rightarrow> (Status_Error I2C_ERROR ''no reply'' 0, [], w1)
         | (st, bs) # rest \<Rightarrow> (st, bs, w1\<lparr>sim_replies := rest\<rparr>))"

definition sim_write :: "(unit, sim) i2c_write" where
  "sim_write addr buf len tmo user w =
     (let w1 = w\<lparr>sim_frames := sim_frames w @ [(addr, sim_bytes buf len)]\<rparr>
      in case sim_replies w of
           [] \<Rightarrow> (Status_Error I2C_ERROR ''no reply'' 0, w1)
         | (st, bs) # rest \<Rightarrow> (st, w1\<lparr>sim_replies := rest\<rparr>))"

definition sim_config :: "u8 \<Rightarrow> (unit, sim) Config" where
  "sim_config th =
     \<lparr>i2cWrite = Some sim_write, i2cWriteRead = Some sim_writeRead, i2cAddress = 0x76,
      i2cTimeoutMs = 50, i2cUser = (), offlineThreshold = th\<rparr>"

definition sim_world :: "(Status \<times> u8 list) list \<Rightarrow> sim" where
  "sim_world rs = \<lparr>sim_now = 1000, sim_replies = rs, sim_frames = []\<rparr>"

text \<open>A driver initialised on the scripted bus, and one that has already seen failures.\<close>

definition sim_driver :: "u8 \<Rightarrow> (unit, sim) BME280" where
  "sim_driver th = snd (begin_BME280 (new_BME280 (sim_config 0)) (sim_config th))"

definition sim_degraded :: "(unit, sim) BME280" where
  "sim_degraded =
     (sim_driver 5)\<lparr>driverState := DEGRADED, consecutiveFailures := 2, totalFailures := 7,
                    totalSuccess := 3, lastOkMs := 400, lastErrorMs := 900,
                    lastError := Status_Error TIMEOUT ''bus timeout'' 0\<rparr>"

definition bus_fault :: Status where
  "bus_fault = Status_Error I2C_ERROR ''NACK'' 0"

text \<open>
  One register read of two bytes at 0xF7 on a bus that will give the one reply, and the driver
  after \<open>k\<close> such reads that each met a bus fault.
\<close>

definition sim_read ::
  "(unit, sim) BME280 \<Rightarrow> Status \<times> u8 list \<Rightarrow> Status \<times> ptr \<times> (unit, sim) BME280 \<times> sim" where
  "sim_read d reply = readRegs sim_millis d 0xF7 (Some [0, 0]) 2 (sim_world [reply])"

fun sim_fail_reads :: "nat \<Rightarrow> (unit, sim) BME280" where
  "sim_fail_reads 0 = sim_driver 5"
| "sim_fail_reads (Suc k) = fst (snd (snd (sim_read (sim_fail_reads k) (bus_fault, []))))"

definition sim_saturated :: "(unit, sim) BME280" where
  "sim_saturated =
     (sim_driver 5)\<lparr>driverState := OFFLINE, consecutiveFailures := 255,
                    totalFailures := 4294967295, totalSuccess := 4294967295\<rparr>"

section \<open>Helper facts\<close>


lemmas sim_defs =
  sim_driver_def sim_degraded_def sim_config_def sim_world_def sim_writeRead_def sim_write_def
  sim_bytes_def sim_millis_def begin_BME280_def new_BME280_def Status_Ok_def Status_Error_def
  bus_fault_def sim_saturated_def

lemma updateHealth_status: "fst (updateHealth millis d st w) = st"
  by (simp add: updateHealth_def Let_def)

section \<open>Initialisation\<close>

text \<open>
  C4: for every invalid configuration (a transport capability absent, or a timeout bound of
  zero) initialisation returns invalid-configuration and leaves the driver uninitialised, with
  both timestamps, the last error, the consecutive-failure count and both lifetime counts reset
  to their zero or sentinel values; the configuration held before is kept.
\<close>

theorem begin_invalid_config:
  assumes "i2cWrite cfg = None \<or> i2cWriteRead cfg = None \<or> i2cTimeoutMs cfg = 0"
  shows "code (fst (begin_BME280 d cfg)) = INVALID_CONFIG
    \<and> snd (begin_BME280 d cfg) =
        d\<lparr>initialized := False, driverState := UNINIT, lastOkMs := 0, lastErrorMs := 0,
          lastError := Status_Ok, consecutiveFailures := 0, totalFailures := 0,
          totalSuccess := 0\<rparr>"
  using assms by (auto simp: begin_BME280_def Status_Error_def Let_def)

theorem begin_invalid_config_witness:
  "(i2cWrite ((sim_config 5)\<lparr>i2cTimeoutMs := 0\<rparr>) = None
      \<or> i2cWriteRead ((sim_config 5)\<lparr>i2cTimeoutMs := 0\<rparr>) = None
      \<or> i2cTimeoutMs ((sim_config 5)\<lparr>i2cTimeoutMs := 0\<rparr>) = 0)
   \<and> code (fst (begin_BME280 sim_degraded ((sim_config 5)\<lparr>i2cTimeoutMs := 0\<rparr>))) = INVALID_CONFIG
   \<and> driverState (snd (begin_BME280 sim_degraded ((sim_config 5)\<lparr>i2cTimeoutMs := 0\<rparr>))) = UNINIT
   \<and> totalFailures sim_degraded = 7
   \<and> totalFailures (snd (begin_BME280 sim_degraded ((sim_config 5)\<lparr>i2cTimeoutMs := 0\<rparr>))) = 0"
proof -
  have h: "i2cTimeoutMs ((sim_config 5)\<lparr>i2cTimeoutMs := 0\<rparr>) = 0"
    by simp
  have t: "totalFailures sim_degraded = 7"
    by (simp add: sim_degraded_def)
  show ?thesis
    using begin_invalid_config [of "(sim_config 5)\<lparr>i2cTimeoutMs := 0\<rparr>" sim_degraded] h t
    by simp
qed

text \<open>
  C5: for every valid configuration (both capabilities present, timeout bound above zero)
  initialisation returns ok and leaves the state READY with the consecutive-failure count, both
  lifetime counts and both timestamps zero; the configuration is stored with an offline
  threshold of 0 replaced by 1.
\<close>

theorem begin_valid_config:
  assumes "i2cWrite cfg \<noteq> None" and "i2cWriteRead cfg \<noteq> None" and "0 < i2cTimeoutMs cfg"
  shows "fst (begin_BME280 d cfg) = Status_Ok
    \<and> driverState (snd (begin_BME280 d cfg)) = READY
    \<and> initialized (snd (begin_BME280 d cfg))
    \<and> consecutiveFailures (snd (begin_BME280 d cfg)) = 0
    \<and> totalFailures (snd (begin_BME280 d cfg)) = 0
    \<and> totalSuccess (snd (begin_BME280 d cfg)) = 0
    \<and> lastOkMs (snd (begin_BME280 d cfg)) = 0
    \<and> lastErrorMs (snd (begin_BME280 d cfg)) = 0
    \<and> config (snd (begin_BME280 d cfg)) =
        cfg\<lparr>offlineThreshold := (if offlineThreshold cfg = 0 then 1 else offlineThreshold cfg)\<rparr>"
  using assms by (auto simp: begin_BME280_def Let_def)

theorem begin_valid_config_witness:
  "i2cWrite (sim_config 0) \<noteq> None \<and> i2cWriteRead (sim_config 0) \<noteq> None
   \<and> 0 < i2cTimeoutMs (sim_config 0)
   \<and> fst (begin_BME280 sim_degraded (sim_config 0)) = Status_Ok
   \<and> driverState (snd (begin_BME280 sim_degraded (sim_config 0))) = READY
   \<and> totalFailures (snd (begin_BME280 sim_degraded (sim_config 0))) = 0
   \<and> offlineThreshold (config (snd (begin_BME280 sim_degraded (sim_config 0)))) = 1"
proof -
  have h: "i2cWrite (sim_config 0) \<noteq> None" "i2cWriteRead (sim_config 0) \<noteq> None"
    "0 < i2cTimeoutMs (sim_config 0)"
    by (simp_all add: sim_config_def)
  have th: "offlineThreshold (sim_config 0) = 0"
    by (simp add: sim_config_def)
  show ?thesis
    using begin_valid_config [OF h, of sim_degraded] h th by simp
qed

section \<open>Shutdown\<close>

text \<open>
  C9: shutdown is idempotent. From every driver state one call leaves the driver not
  initialised and in the state UNINIT and touches no other member; any further number of
  calls changes nothing more; on an object that was never initialised the call changes
  nothing at all.
\<close>

theorem end_idempotent:
  "initialized (end_BME280 d) = False
   \<and> driverState (end_BME280 d) = UNINIT
   \<and> end_BME280 d = d\<lparr>initialized := False, driverState := UNINIT\<rparr>
   \<and> (end_BME280 ^^ Suc n) d = end_BME280 d
   \<and> end_BME280 (new_BME280 c) = new_BME280 c"
proof -
  have idem: "end_BME280 (end_BME280 x) = end_BME280 x" for x :: "('a, 'b) BME280"
    by (simp add: end_BME280_def)
  have "(end_BME280 ^^ Suc n) d = end_BME280 d"
  proof (induction n)
    case 0
    show ?case by simp
  next
    case (Suc k)
    have "(end_BME280 ^^ Suc (Suc k)) d = end_BME280 ((end_BME280 ^^ Suc k) d)"
      by simp
    also have "\<dots> = end_BME280 (end_BME280 d)"
      by (simp only: Suc.IH)
    finally show ?case
      by (simp only: idem)
  qed
  then show ?thesis
    by (simp add: end_BME280_def new_BME280_def)
qed

section \<open>Probe\<close>

text \<open>
  C6: a failing probe, whether the raw transport call failed or the identity byte did not
  match, returns the driver object exactly as it was: state, counters, timestamps and last
  error are unchanged.
\<close>

theorem probe_failure_keeps_health:
  assumes "\<not> ok (fst (probe rg cid d w))"
  shows "fst (snd (probe rg cid d w)) = d"
  by (simp add: probe_def split: prod.splits)

theorem probe_failure_keeps_health_witness:
  "\<not> ok (fst (probe 0xD0 0x60 sim_degraded (sim_world [(Status_Ok, [0x58])])))
   \<and> code (fst (probe 0xD0 0x60 sim_degraded (sim_world [(Status_Ok, [0x58])]))) = CHIP_ID_MISMATCH
   \<and> fst (snd (probe 0xD0 0x60 sim_degraded (sim_world [(Status_Ok, [0x58])]))) = sim_degraded
   \<and> \<not> ok (fst (probe 0xD0 0x60 sim_degraded (sim_world [(bus_fault, [])])))
   \<and> code (fst (probe 0xD0 0x60 sim_degraded (sim_world [(bus_fault, [])]))) = I2C_ERROR
   \<and> fst (snd (probe 0xD0 0x60 sim_degraded (sim_world [(bus_fault, [])]))) = sim_degraded"
proof -
  have r: "fst (probe 0xD0 0x60 sim_degraded (sim_world [(Status_Ok, [0x58])]))
      = Status_Error CHIP_ID_MISMATCH ''Chip ID mismatch'' 0x58"
    by (simp add: probe_def i2cWriteReadRaw_def rx_store_def id_of_def ok_def sim_defs Let_def)
  have h: "\<not> ok (fst (probe 0xD0 0x60 sim_degraded (sim_world [(Status_Ok, [0x58])])))"
    by (simp add: r ok_def Status_Error_def)
  have r': "fst (probe 0xD0 0x60 sim_degraded (sim_world [(bus_fault, [])])) = bus_fault"
    by (simp add: probe_def i2cWriteReadRaw_def rx_store_def id_of_def ok_def sim_defs Let_def)
  have h': "\<not> ok (fst (probe 0xD0 0x60 sim_degraded (sim_world [(bus_fault, [])])))"
    unfolding r' by (simp add: ok_def bus_fault_def Status_Error_def)
  have c: "code bus_fault = I2C_ERROR"
    by (simp add: bus_fault_def Status_Error_def)
  show ?thesis
    using probe_failure_keeps_health [OF h] probe_failure_keeps_health [OF h'] h h' r r' c
    by (simp add: Status_Error_def)
qed

section \<open>Tracked wrappers\<close>

text \<open>
  C10: on an initialised driver, when the injected capability itself returns a result
  classified not-initialized, invalid-configuration or invalid-parameter, each tracked wrapper
  returns that result and the driver object is unchanged: the health update is not run.
\<close>

theorem tracked_wrappers_skip_boundary_results:
  assumes "initialized d"
  shows "(i2cWriteRead (config d) = Some f \<and> txBuf \<noteq> None \<and> txLen \<noteq> 0
          \<and> (0 < rxLen \<longrightarrow> rxBuf \<noteq> None)
          \<and> f (i2cAddress (config d)) txBuf txLen rxBuf rxLen (i2cTimeoutMs (config d))
               (i2cUser (config d)) w = (st, wr, w')
          \<and> untracked st
          \<longrightarrow> i2cWriteReadTracked millis d txBuf txLen rxBuf rxLen w
                = (st, rx_store rxBuf rxLen wr, d, w'))
       \<and> (i2cWrite (config d) = Some g \<and> buf \<noteq> None \<and> len \<noteq> 0
          \<and> g (i2cAddress (config d)) buf len (i2cTimeoutMs (config d)) (i2cUser (config d)) v
               = (st2, v')
          \<and> untracked st2
          \<longrightarrow> i2cWriteTracked millis d buf len v = (st2, d, v'))"
  using assms
  by (auto simp: i2cWriteReadTracked_def i2cWriteReadRaw_def i2cWriteTracked_def i2cWriteRaw_def)


theorem tracked_wrappers_skip_boundary_results_witness:
  "initialized sim_degraded
   \<and> untracked (Status_Error INVALID_PARAM ''bad length'' 0)
   \<and> i2cWriteReadTracked sim_millis sim_degraded (Some [0xD0]) 1 (Some [0]) 1
        (sim_world [(Status_Error INVALID_PARAM ''bad length'' 0, [])])
       = (Status_Error INVALID_PARAM ''bad length'' 0, Some [0], sim_degraded,
          \<lparr>sim_now = 1000, sim_replies = [], sim_frames = [(0x76, [0xD0])]\<rparr>)
   \<and> i2cWriteTracked sim_millis sim_degraded (Some [0xF4, 1]) 2
        (sim_world [(Status_Error INVALID_PARAM ''bad length'' 0, [])])
       = (Status_Error INVALID_PARAM ''bad length'' 0, sim_degraded,
          \<lparr>sim_now = 1000, sim_replies = [], sim_frames = [(0x76, [0xF4, 1])]\<rparr>)"
proof -
  have i: "initialized sim_degraded"
    by (simp add: sim_defs Let_def)
  have u: "untracked (Status_Error INVALID_PARAM ''bad length'' 0)"
    by (simp add: untracked_def Status_Error_def)
  have c: "i2cWriteRead (config sim_degraded) = Some sim_writeRead"
    "i2cWrite (config sim_degraded) = Some sim_write"
    "i2cAddress (config sim_degraded) = 0x76"
    by (simp_all add: sim_defs Let_def)
  have f: "sim_writeRead (i2cAddress (config sim_degraded)) (Some [0xD0]) 1 (Some [0]) 1
        (i2cTimeoutMs (config sim_degraded)) (i2cUser (config sim_degraded))
        (sim_world [(Status_Error INVALID_PARAM ''bad length'' 0, [])])
      = (Status_Error INVALID_PARAM ''bad length'' 0, [],
         \<lparr>sim_now = 1000, sim_replies = [], sim_frames = [(0x76, [0xD0])]\<rparr>)"
    by (simp add: c sim_writeRead_def sim_world_def sim_bytes_def Let_def)
  have g: "sim_write (i2cAddress (config sim_degraded)) (Some [0xF4, 1]) 2
        (i2cTimeoutMs (config sim_degraded)) (i2cUser (config sim_degraded))
        (sim_world [(Status_Error INVALID_PARAM ''bad length'' 0, [])])
      = (Status_Error INVALID_PARAM ''bad length'' 0,
         \<lparr>sim_now = 1000, sim_replies = [], sim_frames = [(0x76, [0xF4, 1])]\<rparr>)"
    by (simp add: c sim_write_def sim_world_def sim_bytes_def Let_def)
  have s: "rx_store (Some [0]) 1 [] = Some [0]"
    by (simp add: rx_store_def)
  show ?thesis
    using tracked_wrappers_skip_boundary_results [OF i,
        where f = sim_writeRead and txBuf = "Some [0xD0]" and txLen = 1 and rxBuf = "Some [0]"
          and rxLen = 1 and w = "sim_world [(Status_Error INVALID_PARAM ''bad length'' 0, [])]"
          and st = "Status_Error INVALID_PARAM ''bad length'' 0" and wr = "[]"
          and w' = "\<lparr>sim_now = 1000, sim_replies = [], sim_frames = [(0x76, [0xD0])]\<rparr>"
          and g = sim_write and buf = "Some [0xF4, 1]" and len = 2
          and v = "sim_world [(Status_Error INVALID_PARAM ''bad length'' 0, [])]"
          and ?st2.0 = "Status_Error INVALID_PARAM ''bad length'' 0"
          and v' = "\<lparr>sim_now = 1000, sim_replies = [], sim_frames = [(0x76, [0xF4, 1])]\<rparr>"
          and millis = sim_millis]
      i u c(1,2) f g s
    by simp
qed

section \<open>Register writes\<close>

text \<open>
  C7: on an initialised driver with the write capability set, a register write of a non-null
  buffer with the maximum payload length, 16, hands the capability one frame of 17 bytes, the
  register address followed by the 16 payload bytes, and its result goes through the tracked
  path; with a payload length of 17 the call returns invalid-parameter and the driver and the
  outside world are returned untouched, whatever the capability is, so it was not invoked.
\<close>

theorem writeRegs_payload_bound:
  assumes "initialized d" and "i2cWrite (config d) = Some g"
  shows "MAX_WRITE_LEN = 16
    \<and> (MAX_WRITE_LEN \<le> length bs \<longrightarrow>
         writeRegs millis d startReg (Some bs) MAX_WRITE_LEN w =
           (case g (i2cAddress (config d)) (Some (startReg # take 16 bs)) 17
                   (i2cTimeoutMs (config d)) (i2cUser (config d)) w of
              (st, w') \<Rightarrow>
                if untracked st then (st, d, w')
                else (fst (updateHealth millis d st w'), snd (updateHealth millis d st w'), w')))
    \<and> writeRegs millis d startReg (Some bs) (MAX_WRITE_LEN + 1) w =
         (Status_Error INVALID_PARAM ''Write length too large'' 0, d, w)"
proof -
  have "(replicate (Suc 16) 0)[0 := startReg] = startReg # replicate 16 (0::u8)"
    by (simp only: replicate_Suc list_update_code)
  then have buf: "(replicate 17 0)[0 := startReg] = startReg # replicate 16 (0::u8)"
    by simp
  have frame: "memcpy_at ((replicate 17 0)[0 := startReg]) (Suc 0) bs 16 = startReg # take 16 bs"
    if "16 \<le> length bs"
    using that by (simp add: memcpy_at_def buf)
  have tracked: "i2cWriteTracked millis d (Some p) 17 w =
      (case g (i2cAddress (config d)) (Some p) 17 (i2cTimeoutMs (config d))
              (i2cUser (config d)) w of
         (st, w') \<Rightarrow>
           if untracked st then (st, d, w')
           else (fst (updateHealth millis d st w'), snd (updateHealth millis d st w'), w'))"
    for p
    using assms
    by (simp add: i2cWriteTracked_def i2cWriteRaw_def split: prod.splits)
  have at_max: "writeRegs millis d startReg (Some bs) MAX_WRITE_LEN w =
      i2cWriteTracked millis d (Some (startReg # take 16 bs)) 17 w"
    if "MAX_WRITE_LEN \<le> length bs"
    using assms that by (simp add: writeRegs_def MAX_WRITE_LEN_def Let_def frame)
  have above: "writeRegs millis d startReg (Some bs) (MAX_WRITE_LEN + 1) w =
      (Status_Error INVALID_PARAM ''Write length too large'' 0, d, w)"
    using assms by (simp add: writeRegs_def MAX_WRITE_LEN_def)
  show ?thesis
    using at_max above by (simp add: tracked MAX_WRITE_LEN_def)
qed

theorem writeRegs_payload_bound_witness:
  "initialized (sim_driver 5) \<and> i2cWrite (config (sim_driver 5)) = Some sim_write
   \<and> sim_frames (snd (snd (writeRegs sim_millis (sim_driver 5) 0xF4 (Some (replicate 16 7)) 16
        (sim_world [(Status_Ok, [])]))))
       = [(0x76, [0xF4, 7, 7, 7, 7, 7, 7, 7, 7, 7, 7, 7, 7, 7, 7, 7, 7])]
   \<and> fst (writeRegs sim_millis (sim_driver 5) 0xF4 (Some (replicate 16 7)) 16
        (sim_world [(Status_Ok, [])])) = Status_Ok
   \<and> writeRegs sim_millis (sim_driver 5) 0xF4 (Some (replicate 17 7)) 17
        (sim_world [(Status_Ok, [])])
       = (Status_Error INVALID_PARAM ''Write length too large'' 0, sim_driver 5,
          sim_world [(Status_Ok, [])])
   \<and> sim_frames (sim_world [(Status_Ok, [])]) = []"
proof -
  have i: "initialized (sim_driver 5)"
    by (simp add: sim_defs Let_def)
  have c: "i2cWrite (config (sim_driver 5)) = Some sim_write"
    by (simp add: sim_defs Let_def)
  have a: "i2cAddress (config (sim_driver 5)) = 0x76"
    by (simp add: sim_defs Let_def)
  have r16: "replicate 16 (7::u8) = [7, 7, 7, 7, 7, 7, 7, 7, 7, 7, 7, 7, 7, 7, 7, 7]"
    by (simp add: numeral_eq_Suc)
  have g: "sim_write (i2cAddress (config (sim_driver 5)))
        (Some (0xF4 # take 16 (replicate 16 7))) 17
        (i2cTimeoutMs (config (sim_driver 5))) (i2cUser (config (sim_driver 5)))
        (sim_world [(Status_Ok, [])])
      = (Status_Ok, \<lparr>sim_now = 1000, sim_replies = [],
           sim_frames = [(0x76, [0xF4, 7, 7, 7, 7, 7, 7, 7, 7, 7, 7, 7, 7, 7, 7, 7, 7])]\<rparr>)"
    by (simp add: a r16 sim_write_def sim_world_def sim_bytes_def Let_def)
  have u: "\<not> untracked Status_Ok"
    by (simp add: untracked_def Status_Ok_def)
  have m: "MAX_WRITE_LEN = 16"
    by (simp add: MAX_WRITE_LEN_def)
  have e: "sim_frames (sim_world [(Status_Ok, [])]) = []"
    by (simp add: sim_world_def)
  note at_max = writeRegs_payload_bound [OF i c, where bs = "replicate 16 7"
      and millis = sim_millis and startReg = "0xF4" and w = "sim_world [(Status_Ok, [])]"]
  note above = writeRegs_payload_bound [OF i c, where bs = "replicate 17 7"
      and millis = sim_millis and startReg = "0xF4" and w = "sim_world [(Status_Ok, [])]"]
  have a: "writeRegs sim_millis (sim_driver 5) 0xF4 (Some (replicate 16 7)) 16
        (sim_world [(Status_Ok, [])]) =
      (Status_Ok,
       snd (updateHealth sim_millis (sim_driver 5) Status_Ok
         \<lparr>sim_now = 1000, sim_replies = [],
          sim_frames = [(0x76, [0xF4, 7, 7, 7, 7, 7, 7, 7, 7, 7, 7, 7, 7, 7, 7, 7, 7])]\<rparr>),
       \<lparr>sim_now = 1000, sim_replies = [],
        sim_frames = [(0x76, [0xF4, 7, 7, 7, 7, 7, 7, 7, 7, 7, 7, 7, 7, 7, 7, 7, 7])]\<rparr>)"
    using at_max g u by (simp add: m updateHealth_status)
  have b: "writeRegs sim_millis (sim_driver 5) 0xF4 (Some (replicate 17 7)) 17
        (sim_world [(Status_Ok, [])]) =
      (Status_Error INVALID_PARAM ''Write length too large'' 0, sim_driver 5,
       sim_world [(Status_Ok, [])])"
    using above by (simp add: m)
  show ?thesis
    by (simp add: a b i c e)
qed

section \<open>Recovery\<close>

lemma updateHealth_ok:
  assumes "initialized d" and "ok st"
  shows "updateHealth millis d st w =
    (st, d\<lparr>lastOkMs := millis w,
           totalSuccess := (if totalSuccess d < maxU32 then totalSuccess d + 1
                            else totalSuccess d),
           consecutiveFailures := 0,
           driverState := READY\<rparr>)"
  using assms by (simp add: updateHealth_def Let_def)

lemma updateHealth_failure:
  assumes "initialized d" and "\<not> ok st"
  shows "updateHealth millis d st w =
    (st, d\<lparr>lastError := st,
           lastErrorMs := millis w,
           totalFailures := (if totalFailures d < maxU32 then totalFailures d + 1
                             else totalFailures d),
           consecutiveFailures := (if consecutiveFailures d < maxU8
                                   then consecutiveFailures d + 1
                                   else consecutiveFailures d),
           driverState := (if offlineThreshold (config d)
                              \<le> (if consecutiveFailures d < maxU8
                                  then consecutiveFailures d + 1
                                  else consecutiveFailures d)
                           then OFFLINE else DEGRADED)\<rparr>)"
  using assms by (simp add: updateHealth_def Let_def)

lemma ok_not_untracked: "ok st \<Longrightarrow> \<not> untracked st"
  by (simp add: ok_def untracked_def)

text \<open>
  C1, as the code has it: on an initialised driver, when the tracked write-read of recover()
  succeeds but the byte read differs from the expected identity, the health update has already
  run on the transport's ok result. The call returns chip-identity-mismatch carrying the byte,
  and the driver has recorded a success: consecutive-failure count 0, state READY, lifetime
  success count incremented (saturating), last-success timestamp set; the lifetime failure
  count, the last error and its timestamp are unchanged. The mismatch itself never reaches the
  health update.
\<close>

theorem recover_mismatch_recorded_as_success:
  assumes "initialized d"
    and "i2cWriteRead (config d) = Some f"
    and "f (i2cAddress (config d)) (Some [rg]) 1 (Some [0]) 1 (i2cTimeoutMs (config d))
           (i2cUser (config d)) w = (st, wr, w')"
    and "ok st"
    and "id_of (rx_store (Some [0]) 1 wr) \<noteq> cid"
  shows "recover millis rg cid d w =
    (Status_Error CHIP_ID_MISMATCH ''Chip ID mismatch'' (ucast (id_of (rx_store (Some [0]) 1 wr))),
     d\<lparr>lastOkMs := millis w',
       totalSuccess := (if totalSuccess d < maxU32 then totalSuccess d + 1 else totalSuccess d),
       consecutiveFailures := 0,
       driverState := READY\<rparr>,
     w')"
proof -
  have raw: "i2cWriteReadRaw d (Some [rg]) 1 (Some [0]) 1 w = (st, rx_store (Some [0]) 1 wr, w')"
    using assms(2,3) by (simp add: i2cWriteReadRaw_def)
  have tracked: "i2cWriteReadTracked millis d (Some [rg]) 1 (Some [0]) 1 w =
      (st, rx_store (Some [0]) 1 wr, snd (updateHealth millis d st w'), w')"
    using assms(1,4) raw
    by (simp add: i2cWriteReadTracked_def ok_not_untracked updateHealth_ok)
  show ?thesis
    using assms(1,4,5) tracked by (simp add: recover_def updateHealth_ok)
qed

theorem recover_mismatch_recorded_as_success_witness:
  "initialized sim_degraded
   \<and> ok Status_Ok
   \<and> id_of (rx_store (Some [0]) 1 [0x58]) \<noteq> 0x60
   \<and> recover sim_millis 0xD0 0x60 sim_degraded (sim_world [(Status_Ok, [0x58])]) =
       (Status_Error CHIP_ID_MISMATCH ''Chip ID mismatch'' 0x58,
        sim_degraded\<lparr>lastOkMs := 1000, totalSuccess := 4, consecutiveFailures := 0,
                     driverState := READY\<rparr>,
        \<lparr>sim_now = 1000, sim_replies = [], sim_frames = [(0x76, [0xD0])]\<rparr>)"
proof -
  have i: "initialized sim_degraded"
    by (simp add: sim_defs Let_def)
  have c: "i2cWriteRead (config sim_degraded) = Some sim_writeRead"
    by (simp add: sim_defs Let_def)
  have a: "i2cAddress (config sim_degraded) = 0x76"
    by (simp add: sim_defs Let_def)
  have f: "sim_writeRead (i2cAddress (config sim_degraded)) (Some [0xD0]) 1 (Some [0]) 1
        (i2cTimeoutMs (config sim_degraded)) (i2cUser (config sim_degraded))
        (sim_world [(Status_Ok, [0x58])])
      = (Status_Ok, [0x58], \<lparr>sim_now = 1000, sim_replies = [], sim_frames = [(0x76, [0xD0])]\<rparr>)"
    by (simp add: a sim_writeRead_def sim_world_def sim_bytes_def Let_def)
  have k: "ok Status_Ok"
    by (simp add: ok_def Status_Ok_def)
  have b: "id_of (rx_store (Some [0]) 1 [0x58]) = 0x58"
    by (simp add: id_of_def rx_store_def)
  have m: "id_of (rx_store (Some [0]) 1 [0x58]) \<noteq> 0x60"
    using b by simp
  have t: "totalSuccess sim_degraded = 3"
    by (simp add: sim_degraded_def)
  have r: "recover sim_millis 0xD0 0x60 sim_degraded (sim_world [(Status_Ok, [0x58])]) =
       (Status_Error CHIP_ID_MISMATCH ''Chip ID mismatch'' 0x58,
        sim_degraded\<lparr>lastOkMs := 1000, totalSuccess := 4, consecutiveFailures := 0,
                     driverState := READY\<rparr>,
        \<lparr>sim_now = 1000, sim_replies = [], sim_frames = [(0x76, [0xD0])]\<rparr>)"
    using recover_mismatch_recorded_as_success [OF i c f k m, of sim_millis] b
    by (simp add: t maxU32_def sim_millis_def)
  show ?thesis
    using i k m r by simp
qed

text \<open>
  C1 as written fails: a degraded driver with 2 consecutive and 7 lifetime failures,
  whose recover() reads the identity byte 0x58 instead of 0x60 over a working bus, returns
  chip-identity-mismatch, and afterwards the consecutive-failure count is 0, the lifetime
  failure count is still 7 and the state is READY.
\<close>

theorem recover_mismatch_counterexample:
  "initialized sim_degraded
   \<and> consecutiveFailures sim_degraded = 2 \<and> totalFailures sim_degraded = 7
   \<and> code (fst (recover sim_millis 0xD0 0x60 sim_degraded (sim_world [(Status_Ok, [0x58])])))
       = CHIP_ID_MISMATCH
   \<and> consecutiveFailures
        (fst (snd (recover sim_millis 0xD0 0x60 sim_degraded (sim_world [(Status_Ok, [0x58])]))))
       = 0
   \<and> totalFailures
        (fst (snd (recover sim_millis 0xD0 0x60 sim_degraded (sim_world [(Status_Ok, [0x58])]))))
       = 7
   \<and> driverState
        (fst (snd (recover sim_millis 0xD0 0x60 sim_degraded (sim_world [(Status_Ok, [0x58])]))))
       = READY"
  by (simp add: recover_def i2cWriteReadTracked_def i2cWriteReadRaw_def updateHealth_def
      rx_store_def id_of_def ok_def untracked_def maxU32_def sim_defs Let_def)

section \<open>Health invariant\<close>

lemma maxU8_max: "maxU8 = - 1"
  by (simp add: maxU8_def)

lemma maxU32_max: "maxU32 = - 1"
  by (simp add: maxU32_def)

lemma below_max_inc_nonzero: "c < - 1 \<Longrightarrow> c + 1 \<noteq> 0" for c :: "'a::len word"
  by (metis add_neg_numeral_special(8) add_right_cancel word_order.not_eq_extremum)

lemma nonzero_ge_one: "c \<noteq> 0 \<Longrightarrow> 1 \<le> c" for c :: "'a::len word"
  by (simp add: word_le_sub1)

lemma below_max_inc_le: "c < - 1 \<Longrightarrow> c \<le> c + 1" for c :: "'a::len word"
  using inc_less_eq_self_iff_eq nle_le word_order.not_eq_extremum by auto

lemma not_below_max: "\<not> c < - 1 \<Longrightarrow> c = - 1" for c :: "'a::len word"
  using word_order.not_eq_extremum by auto

lemma sat_inc_u8_nonzero: "(if c < maxU8 then c + 1 else c) \<noteq> 0"
proof (cases "c < maxU8")
  case True
  then show ?thesis
    by (simp add: maxU8_max below_max_inc_nonzero)
next
  case False
  then have "c = - 1"
    by (simp add: maxU8_max not_below_max)
  with False show ?thesis
    by simp
qed

lemma updateHealth_inv:
  assumes "health_inv d"
  shows "health_inv (snd (updateHealth millis d st w))"
proof (cases "ok st")
  case True
  from assms have th: "\<not> offlineThreshold (config d) \<le> 0"
    by (auto simp: health_inv_def)
  from assms True th show ?thesis
    by (simp add: updateHealth_ok health_inv_def health_consistent_def)
next
  case False
  let ?c = "if consecutiveFailures d < maxU8 then consecutiveFailures d + 1
            else consecutiveFailures d"
  have nz: "?c \<noteq> 0"
    by (rule sat_inc_u8_nonzero)
  then have ge: "1 \<le> ?c"
    by (rule nonzero_ge_one)
  from assms have i: "initialized d" and t: "1 \<le> offlineThreshold (config d)"
    by (simp_all add: health_inv_def)
  have upd: "snd (updateHealth millis d st w) =
      d\<lparr>lastError := st, lastErrorMs := millis w,
        totalFailures := (if totalFailures d < maxU32 then totalFailures d + 1
                          else totalFailures d),
        consecutiveFailures := ?c,
        driverState := (if offlineThreshold (config d) \<le> ?c then OFFLINE else DEGRADED)\<rparr>"
    using i False by (simp add: updateHealth_failure)
  show ?thesis
  proof (cases "offlineThreshold (config d) \<le> ?c")
    case True
    then have "\<not> ?c < offlineThreshold (config d)"
      by simp
    with True nz i t show ?thesis
      unfolding upd health_inv_def health_consistent_def by simp
  next
    case off: False
    then have "?c < offlineThreshold (config d)"
      by simp
    with off nz ge i t show ?thesis
      unfolding upd health_inv_def health_consistent_def by simp
  qed
qed

text \<open>
  Every operation other than initialisation and shutdown returns either the driver it was
  given or the result of one health update on it.
\<close>

lemma i2cWriteReadTracked_keeps:
  assumes "P d" and "\<And>st v. P (snd (updateHealth millis d st v))"
  shows "P (fst (snd (snd (i2cWriteReadTracked millis d t tn r rn w))))"
proof -
  have "P (snd (updateHealth millis d st v))" for st v
    by (rule assms(2))
  then have "updateHealth millis d st v = (st', d') \<Longrightarrow> P d'" for st v st' d'
    by (metis snd_conv)
  with assms(1) show ?thesis
    by (auto simp: i2cWriteReadTracked_def split: prod.splits)
qed

lemma i2cWriteTracked_keeps:
  assumes "P d" and "\<And>st v. P (snd (updateHealth millis d st v))"
  shows "P (fst (snd (i2cWriteTracked millis d b n w)))"
proof -
  have "P (snd (updateHealth millis d st v))" for st v
    by (rule assms(2))
  then have "updateHealth millis d st v = (st', d') \<Longrightarrow> P d'" for st v st' d'
    by (metis snd_conv)
  with assms(1) show ?thesis
    by (auto simp: i2cWriteTracked_def split: prod.splits)
qed

lemma readRegs_keeps:
  assumes "P d" and "\<And>st v. P (snd (updateHealth millis d st v))"
  shows "P (fst (snd (snd (readRegs millis d r b n w))))"
  using i2cWriteReadTracked_keeps [of P d millis, OF assms] assms(1)
  by (simp add: readRegs_def)

lemma writeRegs_keeps:
  assumes "P d" and "\<And>st v. P (snd (updateHealth millis d st v))"
  shows "P (fst (snd (writeRegs millis d r b n w)))"
  using i2cWriteTracked_keeps [of P d millis, OF assms] assms(1)
  by (simp add: writeRegs_def Let_def split: option.splits)

lemma recover_keeps:
  assumes "P d" and "\<And>st v. P (snd (updateHealth millis d st v))"
  shows "P (fst (snd (recover millis rg cid d w)))"
  using i2cWriteReadTracked_keeps [of P d millis "Some [rg]" 1 "Some [0]" 1 w, OF assms] assms(1)
  by (auto simp: recover_def split: prod.splits)

lemma probe_keeps: "fst (snd (probe rg cid d w)) = d"
  by (simp add: probe_def split: prod.splits)

lemma step_keeps:
  assumes "P d" and "\<And>st v. P (snd (updateHealth millis d st v))"
  shows "P (fst (step millis rg cid x d w))"
proof (cases x)
  case Probe
  with assms(1) show ?thesis by (simp add: probe_keeps)
next
  case Recover
  with recover_keeps [of P d millis, OF assms] show ?thesis by simp
next
  case (ReadRegs r b n)
  with readRegs_keeps [of P d millis, OF assms] show ?thesis by simp
next
  case (WriteRegs r b n)
  with writeRegs_keeps [of P d millis, OF assms] show ?thesis by simp
next
  case (WriteReadTracked t tn r rn)
  with i2cWriteReadTracked_keeps [of P d millis, OF assms] show ?thesis by simp
next
  case (WriteTracked b n)
  with i2cWriteTracked_keeps [of P d millis, OF assms] show ?thesis by simp
next
  case (Tick nowMs)
  with assms(1) show ?thesis by (simp add: tick_def)
qed

lemma step_inv: "health_inv d \<Longrightarrow> health_inv (fst (step millis rg cid x d w))"
  by (rule step_keeps) (simp_all add: updateHealth_inv)

lemma run_inv: "health_inv d \<Longrightarrow> health_inv (fst (run millis rg cid xs d w))"
proof (induction xs arbitrary: d w)
  case Nil
  then show ?case by simp
next
  case (Cons x xs)
  obtain d' w' where s: "step millis rg cid x d w = (d', w')"
    by (cases "step millis rg cid x d w")
  with step_inv [OF Cons.prems, of millis rg cid x w] have "health_inv d'"
    by simp
  then have "health_inv (fst (run millis rg cid xs d' w'))"
    by (rule Cons.IH)
  with s show ?case by simp
qed

lemma begin_inv:
  assumes "ok (fst (begin_BME280 d0 cfg))"
  shows "health_inv (snd (begin_BME280 d0 cfg))"
proof -
  have one: "(1::u8) \<le> t" if "t \<noteq> 0" for t
    using that by (rule nonzero_ge_one)
  from assms show ?thesis
    by (auto simp: begin_BME280_def Let_def ok_def Status_Error_def health_inv_def
        health_consistent_def one split: if_splits)
qed

text \<open>
  C3: in every state reached from a successful initialisation by any sequence of operations
  other than initialisation and shutdown (probe, recover, register reads and writes, the
  tracked wrappers, tick), the state is READY iff the consecutive-failure count is zero,
  DEGRADED iff the count is at least 1 and below the stored offline threshold, and OFFLINE iff
  the count is at least the threshold (\<open>health_consistent\<close> is the conjunction of the three).
\<close>

theorem state_agrees_with_failure_count:
  assumes "ok (fst (begin_BME280 d0 cfg))"
  shows "health_consistent (fst (run millis rg cid xs (snd (begin_BME280 d0 cfg)) w))"
proof -
  have "health_inv (fst (run millis rg cid xs (snd (begin_BME280 d0 cfg)) w))"
    by (rule run_inv) (rule begin_inv [OF assms])
  then show ?thesis
    by (simp add: health_inv_def)
qed

lemmas run_defs =
  recover_def readRegs_def writeRegs_def probe_def i2cWriteReadTracked_def i2cWriteTracked_def
  i2cWriteReadRaw_def i2cWriteRaw_def updateHealth_def rx_store_def id_of_def ok_def
  untracked_def maxU32_def maxU8_def

theorem state_agrees_with_failure_count_witness:
  "ok (fst (begin_BME280 (new_BME280 (sim_config 0)) (sim_config 2)))
   \<and> health_consistent
        (fst (run sim_millis 0xD0 0x60 [ReadRegs 0xF7 (Some [0, 0]) 2, Recover]
               (snd (begin_BME280 (new_BME280 (sim_config 0)) (sim_config 2)))
               (sim_world [(bus_fault, []), (bus_fault, [])])))
   \<and> driverState
        (fst (run sim_millis 0xD0 0x60 [ReadRegs 0xF7 (Some [0, 0]) 2, Recover]
               (snd (begin_BME280 (new_BME280 (sim_config 0)) (sim_config 2)))
               (sim_world [(bus_fault, []), (bus_fault, [])]))) = OFFLINE
   \<and> consecutiveFailures
        (fst (run sim_millis 0xD0 0x60 [ReadRegs 0xF7 (Some [0, 0]) 2, Recover]
               (snd (begin_BME280 (new_BME280 (sim_config 0)) (sim_config 2)))
               (sim_world [(bus_fault, []), (bus_fault, [])]))) = 2"
proof -
  have h: "ok (fst (begin_BME280 (new_BME280 (sim_config 0)) (sim_config 2)))"
    by (simp add: sim_defs ok_def Let_def)
  have e: "fst (run sim_millis 0xD0 0x60 [ReadRegs 0xF7 (Some [0, 0]) 2, Recover]
               (snd (begin_BME280 (new_BME280 (sim_config 0)) (sim_config 2)))
               (sim_world [(bus_fault, []), (bus_fault, [])]))
      = (snd (begin_BME280 (new_BME280 (sim_config 0)) (sim_config 2)))
          \<lparr>lastError := bus_fault, lastErrorMs := 1000, totalFailures := 2,
           consecutiveFailures := 2, driverState := OFFLINE\<rparr>"
    by (simp add: run_defs sim_defs Let_def)
  show ?thesis
    using state_agrees_with_failure_count [OF h, of sim_millis "0xD0" "0x60"
        "[ReadRegs 0xF7 (Some [0, 0]) 2, Recover]" "sim_world [(bus_fault, []), (bus_fault, [])]"]
      h
    unfolding e by simp
qed

section \<open>Saturating counters\<close>

lemma sat_inc_u32_le: "c \<le> (if c < maxU32 then c + 1 else c)"
  by (simp add: maxU32_max below_max_inc_le)

lemma sat_inc_u8_le: "c \<le> (if c < maxU8 then c + 1 else c)"
  by (simp add: maxU8_max below_max_inc_le)

lemma updateHealth_lifetime_mono:
  "totalSuccess d \<le> totalSuccess (snd (updateHealth millis d st v))
   \<and> totalFailures d \<le> totalFailures (snd (updateHealth millis d st v))"
proof (cases "initialized d")
  case False
  then show ?thesis
    by (simp add: updateHealth_def)
next
  case True
  show ?thesis
  proof (cases "ok st")
    case ok: True
    from sat_inc_u32_le [of "totalSuccess d"] show ?thesis
      by (simp add: updateHealth_ok [OF True ok])
  next
    case failed: False
    from sat_inc_u32_le [of "totalFailures d"] show ?thesis
      by (simp add: updateHealth_failure [OF True failed])
  qed
qed

lemma step_lifetime_mono:
  "totalSuccess d \<le> totalSuccess (fst (step millis rg cid x d w))
   \<and> totalFailures d \<le> totalFailures (fst (step millis rg cid x d w))"
  by (rule step_keeps [where P = "\<lambda>e. totalSuccess d \<le> totalSuccess e
        \<and> totalFailures d \<le> totalFailures e"])
    (simp_all add: updateHealth_lifetime_mono)

lemma run_lifetime_mono:
  "totalSuccess d \<le> totalSuccess (fst (run millis rg cid xs d w))
   \<and> totalFailures d \<le> totalFailures (fst (run millis rg cid xs d w))"
proof (induction xs arbitrary: d w)
  case Nil
  show ?case by simp
next
  case (Cons x xs)
  obtain d' w' where s: "step millis rg cid x d w = (d', w')"
    by (cases "step millis rg cid x d w")
  from step_lifetime_mono [of d millis rg cid x w] s
  have one: "totalSuccess d \<le> totalSuccess d' \<and> totalFailures d \<le> totalFailures d'"
    by simp
  from Cons.IH [of d' w']
  have rest: "totalSuccess d' \<le> totalSuccess (fst (run millis rg cid xs d' w'))
      \<and> totalFailures d' \<le> totalFailures (fst (run millis rg cid xs d' w'))" .
  from one rest s show ?case
    by (auto intro: order_trans)
qed

lemma u32_at_max: "maxU32 \<le> c \<Longrightarrow> c = maxU32"
  by (simp add: maxU32_max word_order.extremum_unique)

lemma step_saturated_count:
  assumes "consecutiveFailures d = maxU8"
  shows "consecutiveFailures (fst (step millis rg cid x d w)) = maxU8
    \<or> (consecutiveFailures (fst (step millis rg cid x d w)) = 0
        \<and> driverState (fst (step millis rg cid x d w)) = READY)"
proof (rule step_keeps [where P = "\<lambda>e. consecutiveFailures e = maxU8
        \<or> (consecutiveFailures e = 0 \<and> driverState e = READY)"])
  show "consecutiveFailures d = maxU8 \<or> (consecutiveFailures d = 0 \<and> driverState d = READY)"
    using assms by simp
next
  fix st v
  show "consecutiveFailures (snd (updateHealth millis d st v)) = maxU8
    \<or> (consecutiveFailures (snd (updateHealth millis d st v)) = 0
        \<and> driverState (snd (updateHealth millis d st v)) = READY)"
    using assms by (simp add: updateHealth_def Let_def)
qed

text \<open>
  C8: the lifetime counters never wrap. Over every sequence of operations other than
  initialisation and shutdown, the lifetime success count and the lifetime failure count
  never decrease as unsigned 32-bit values, and once either equals the maximum 4294967295 it
  stays there. A failure fed to the health update takes the consecutive-failure count to
  count + 1, or leaves it at the 8-bit maximum 255, never to zero; from 255 an operation
  leaves the count at 255 unless it records a success, which resets it to 0 with state READY.
\<close>

theorem counters_saturate:
  "unat maxU32 = 2 ^ 32 - 1 \<and> unat maxU8 = 2 ^ 8 - 1
   \<and> totalSuccess d \<le> totalSuccess (fst (run millis rg cid xs d w))
   \<and> totalFailures d \<le> totalFailures (fst (run millis rg cid xs d w))
   \<and> (totalSuccess d = maxU32 \<longrightarrow> totalSuccess (fst (run millis rg cid xs d w)) = maxU32)
   \<and> (totalFailures d = maxU32 \<longrightarrow> totalFailures (fst (run millis rg cid xs d w)) = maxU32)
   \<and> (initialized d \<and> \<not> ok st \<longrightarrow>
        consecutiveFailures (snd (updateHealth millis d st v)) =
          (if consecutiveFailures d = maxU8 then maxU8 else consecutiveFailures d + 1)
        \<and> consecutiveFailures d \<le> consecutiveFailures (snd (updateHealth millis d st v))
        \<and> consecutiveFailures (snd (updateHealth millis d st v)) \<noteq> 0)
   \<and> (consecutiveFailures d = maxU8 \<longrightarrow>
        consecutiveFailures (fst (step millis rg cid x d w)) = maxU8
        \<or> (consecutiveFailures (fst (step millis rg cid x d w)) = 0
            \<and> driverState (fst (step millis rg cid x d w)) = READY))"
proof -
  have limits: "unat maxU32 = 2 ^ 32 - 1 \<and> unat maxU8 = 2 ^ 8 - 1"
    by (simp add: maxU32_def maxU8_def)
  note mono = run_lifetime_mono [of d millis rg cid xs w]
  have top_s: "totalSuccess (fst (run millis rg cid xs d w)) = maxU32"
    if "totalSuccess d = maxU32"
    using mono that by (simp add: u32_at_max)
  have top_f: "totalFailures (fst (run millis rg cid xs d w)) = maxU32"
    if "totalFailures d = maxU32"
    using mono that by (simp add: u32_at_max)
  have fail: "consecutiveFailures (snd (updateHealth millis d st v)) =
        (if consecutiveFailures d = maxU8 then maxU8 else consecutiveFailures d + 1)
      \<and> consecutiveFailures d \<le> consecutiveFailures (snd (updateHealth millis d st v))
      \<and> consecutiveFailures (snd (updateHealth millis d st v)) \<noteq> 0"
    if "initialized d" and "\<not> ok st"
  proof -
    have c: "consecutiveFailures (snd (updateHealth millis d st v)) =
        (if consecutiveFailures d < maxU8 then consecutiveFailures d + 1
         else consecutiveFailures d)"
      using that by (simp add: updateHealth_failure)
    have below: "(consecutiveFailures d < maxU8) = (consecutiveFailures d \<noteq> maxU8)"
      by (simp add: maxU8_max word_order.not_eq_extremum)
    show ?thesis
      unfolding c using sat_inc_u8_le [of "consecutiveFailures d"]
        sat_inc_u8_nonzero [of "consecutiveFailures d"]
      by (simp add: below)
  qed
  from limits mono top_s top_f fail step_saturated_count [of d millis rg cid x w]
  show ?thesis
    by blast
qed

theorem counters_saturate_witness:
  "totalSuccess sim_saturated = maxU32 \<and> totalFailures sim_saturated = maxU32
   \<and> initialized sim_saturated \<and> \<not> ok bus_fault
   \<and> consecutiveFailures sim_saturated = maxU8
   \<and> totalSuccess
        (fst (run sim_millis 0xD0 0x60 [Recover, ReadRegs 0xF7 (Some [0, 0]) 2] sim_saturated
               (sim_world [(bus_fault, []), (Status_Ok, [1, 2])]))) = 4294967295
   \<and> totalFailures
        (fst (run sim_millis 0xD0 0x60 [Recover, ReadRegs 0xF7 (Some [0, 0]) 2] sim_saturated
               (sim_world [(bus_fault, []), (Status_Ok, [1, 2])]))) = 4294967295
   \<and> consecutiveFailures (snd (updateHealth sim_millis sim_saturated bus_fault (sim_world [])))
       = 255
   \<and> consecutiveFailures
        (fst (step sim_millis 0xD0 0x60 Recover sim_saturated (sim_world [(bus_fault, [])])))
       = 255"
proof -
  have ts: "totalSuccess sim_saturated = maxU32" and tf: "totalFailures sim_saturated = maxU32"
    and cf: "consecutiveFailures sim_saturated = maxU8"
    by (simp_all add: sim_saturated_def maxU32_def maxU8_def)
  have i: "initialized sim_saturated"
    by (simp add: sim_defs Let_def)
  have f: "\<not> ok bus_fault"
    by (simp add: ok_def bus_fault_def Status_Error_def)
  have s: "consecutiveFailures
        (fst (step sim_millis 0xD0 0x60 Recover sim_saturated (sim_world [(bus_fault, [])])))
       \<noteq> 0"
    by (simp add: run_defs sim_defs Let_def)
  note sat = counters_saturate [where d = sim_saturated and millis = sim_millis
      and rg = "0xD0" and cid = "0x60" and xs = "[Recover, ReadRegs 0xF7 (Some [0, 0]) 2]"
      and w = "sim_world [(bus_fault, []), (Status_Ok, [1, 2])]" and st = bus_fault
      and v = "sim_world []" and x = Recover]
  have a: "totalSuccess
        (fst (run sim_millis 0xD0 0x60 [Recover, ReadRegs 0xF7 (Some [0, 0]) 2] sim_saturated
               (sim_world [(bus_fault, []), (Status_Ok, [1, 2])]))) = maxU32"
    using sat ts by blast
  have b: "totalFailures
        (fst (run sim_millis 0xD0 0x60 [Recover, ReadRegs 0xF7 (Some [0, 0]) 2] sim_saturated
               (sim_world [(bus_fault, []), (Status_Ok, [1, 2])]))) = maxU32"
    using sat tf by blast
  have c: "consecutiveFailures (snd (updateHealth sim_millis sim_saturated bus_fault (sim_world [])))
       = maxU8"
    using sat i f cf by simp
  have e: "consecutiveFailures
        (fst (step sim_millis 0xD0 0x60 Recover sim_saturated (sim_world [(bus_fault, [])])))
       = maxU8"
    using counters_saturate [where d = sim_saturated and millis = sim_millis
      and rg = "0xD0" and cid = "0x60" and x = Recover and w = "sim_world [(bus_fault, [])]"]
      cf s
    by blast
  show ?thesis
    unfolding a b c e using ts tf i f cf by (simp add: maxU32_def maxU8_def)
qed

section \<open>Threshold scenario\<close>

lemma readRegs_tracked_result:
  assumes "readRegs millis d r b n w = (s, x, d', w')" and "\<not> untracked s"
  shows "initialized d \<and> d' = snd (updateHealth millis d s w')"
proof -
  have boundary: "untracked (Status_Error NOT_INITIALIZED m 0)"
    "untracked (Status_Error INVALID_PARAM m 0)" for m
    by (simp_all add: untracked_def Status_Error_def)
  have same: "updateHealth millis d st v = (st', e) \<Longrightarrow> st' = st" for st v st' e
    using updateHealth_status [of millis d st v] by simp
  from assms boundary show ?thesis
    by (auto simp: readRegs_def i2cWriteReadTracked_def split: if_splits prod.splits)
      (metis same snd_conv)
qed

lemma failure_recorded:
  assumes "initialized d" and "\<not> ok s" and "d' = snd (updateHealth millis d s v)"
  shows "initialized d' \<and> config d' = config d \<and> totalSuccess d' = totalSuccess d
    \<and> totalFailures d' =
        (if totalFailures d < maxU32 then totalFailures d + 1 else totalFailures d)
    \<and> consecutiveFailures d' =
        (if consecutiveFailures d < maxU8 then consecutiveFailures d + 1
         else consecutiveFailures d)
    \<and> driverState d' =
        (if offlineThreshold (config d)
            \<le> (if consecutiveFailures d < maxU8 then consecutiveFailures d + 1
                else consecutiveFailures d)
         then OFFLINE else DEGRADED)"
  using assms by (simp add: updateHealth_failure)

lemma success_recorded:
  assumes "initialized d" and "ok s" and "d' = snd (updateHealth millis d s v)"
  shows "initialized d' \<and> config d' = config d \<and> totalFailures d' = totalFailures d
    \<and> totalSuccess d' =
        (if totalSuccess d < maxU32 then totalSuccess d + 1 else totalSuccess d)
    \<and> consecutiveFailures d' = 0 \<and> driverState d' = READY"
  using assms by (simp add: updateHealth_ok)

text \<open>
  C2: with an offline threshold of 5, starting from a freshly initialised driver: after 4
  consecutive register reads that each return a failure the tracked path accounts for (any
  classification other than ok, not-initialized, invalid-configuration and invalid-parameter)
  the state is DEGRADED and the consecutive-failure count is 4; after a 5th such read the state
  is OFFLINE and the count is 5; after one further read that returns ok the state is READY, the
  count is 0, the lifetime success count is 1 and the lifetime failure count is 5. The reads
  may use any register, buffer, length and state of the outside world.
\<close>

theorem threshold_scenario:
  assumes "ok (fst (begin_BME280 d0 cfg))" and "offlineThreshold cfg = 5"
    and "readRegs millis (snd (begin_BME280 d0 cfg)) r1 b1 n1 w1 = (s1, x1, d1, v1)"
    and "tracked_failure s1"
    and "readRegs millis d1 r2 b2 n2 w2 = (s2, x2, d2, v2)" and "tracked_failure s2"
    and "readRegs millis d2 r3 b3 n3 w3 = (s3, x3, d3, v3)" and "tracked_failure s3"
    and "readRegs millis d3 r4 b4 n4 w4 = (s4, x4, d4, v4)" and "tracked_failure s4"
    and "readRegs millis d4 r5 b5 n5 w5 = (s5, x5, d5, v5)" and "tracked_failure s5"
    and "readRegs millis d5 r6 b6 n6 w6 = (s6, x6, d6, v6)" and "ok s6"
  shows "driverState d4 = DEGRADED \<and> consecutiveFailures d4 = 4
    \<and> driverState d5 = OFFLINE \<and> consecutiveFailures d5 = 5
    \<and> driverState d6 = READY \<and> consecutiveFailures d6 = 0
    \<and> totalSuccess d6 = 1 \<and> totalFailures d6 = 5"
proof -
  let ?d = "snd (begin_BME280 d0 cfg)"
  have start: "initialized ?d \<and> offlineThreshold (config ?d) = 5
      \<and> consecutiveFailures ?d = 0 \<and> totalFailures ?d = 0 \<and> totalSuccess ?d = 0"
    using assms(1,2)
    by (auto simp: begin_BME280_def Let_def ok_def Status_Error_def split: if_splits)
  have u1: "d1 = snd (updateHealth millis ?d s1 v1)"
    using readRegs_tracked_result [OF assms(3)] assms(4) by (simp add: tracked_failure_def)
  have h1: "initialized d1 \<and> offlineThreshold (config d1) = 5 \<and> consecutiveFailures d1 = 1
      \<and> totalFailures d1 = 1 \<and> totalSuccess d1 = 0"
    using failure_recorded [OF _ _ u1] start assms(4)
    by (simp add: tracked_failure_def maxU8_def maxU32_def)
  have u2: "d2 = snd (updateHealth millis d1 s2 v2)"
    using readRegs_tracked_result [OF assms(5)] assms(6) by (simp add: tracked_failure_def)
  have h2: "initialized d2 \<and> offlineThreshold (config d2) = 5 \<and> consecutiveFailures d2 = 2
      \<and> totalFailures d2 = 2 \<and> totalSuccess d2 = 0"
    using failure_recorded [OF _ _ u2] h1 assms(6)
    by (simp add: tracked_failure_def maxU8_def maxU32_def)
  have u3: "d3 = snd (updateHealth millis d2 s3 v3)"
    using readRegs_tracked_result [OF assms(7)] assms(8) by (simp add: tracked_failure_def)
  have h3: "initialized d3 \<and> offlineThreshold (config d3) = 5 \<and> consecutiveFailures d3 = 3
      \<and> totalFailures d3 = 3 \<and> totalSuccess d3 = 0"
    using failure_recorded [OF _ _ u3] h2 assms(8)
    by (simp add: tracked_failure_def maxU8_def maxU32_def)
  have u4: "d4 = snd (updateHealth millis d3 s4 v4)"
    using readRegs_tracked_result [OF assms(9)] assms(10) by (simp add: tracked_failure_def)
  have h4: "initialized d4 \<and> offlineThreshold (config d4) = 5 \<and> consecutiveFailures d4 = 4
      \<and> totalFailures d4 = 4 \<and> totalSuccess d4 = 0 \<and> driverState d4 = DEGRADED"
    using failure_recorded [OF _ _ u4] h3 assms(10)
    by (simp add: tracked_failure_def maxU8_def maxU32_def)
  have u5: "d5 = snd (updateHealth millis d4 s5 v5)"
    using readRegs_tracked_result [OF assms(11)] assms(12) by (simp add: tracked_failure_def)
  have h5: "initialized d5 \<and> offlineThreshold (config d5) = 5 \<and> consecutiveFailures d5 = 5
      \<and> totalFailures d5 = 5 \<and> totalSuccess d5 = 0 \<and> driverState d5 = OFFLINE"
    using failure_recorded [OF _ _ u5] h4 assms(12)
    by (simp add: tracked_failure_def maxU8_def maxU32_def)
  have u6: "d6 = snd (updateHealth millis d5 s6 v6)"
    using readRegs_tracked_result [OF assms(13)] assms(14) by (simp add: ok_not_untracked)
  have h6: "consecutiveFailures d6 = 0 \<and> totalFailures d6 = 5 \<and> totalSuccess d6 = 1
      \<and> driverState d6 = READY"
    using success_recorded [OF _ _ u6] h5 assms(14)
    by (simp add: maxU32_def)
  from h4 h5 h6 show ?thesis
    by simp
qed

theorem threshold_scenario_witness:
  "driverState (sim_fail_reads 4) = DEGRADED \<and> consecutiveFailures (sim_fail_reads 4) = 4
   \<and> driverState (sim_fail_reads 5) = OFFLINE \<and> consecutiveFailures (sim_fail_reads 5) = 5
   \<and> driverState (fst (snd (snd (sim_read (sim_fail_reads 5) (Status_Ok, [1, 2]))))) = READY
   \<and> consecutiveFailures (fst (snd (snd (sim_read (sim_fail_reads 5) (Status_Ok, [1, 2]))))) = 0
   \<and> totalSuccess (fst (snd (snd (sim_read (sim_fail_reads 5) (Status_Ok, [1, 2]))))) = 1
   \<and> totalFailures (fst (snd (snd (sim_read (sim_fail_reads 5) (Status_Ok, [1, 2]))))) = 5"
proof -
  let ?begin = "begin_BME280 (new_BME280 (sim_config 0)) (sim_config 5)"
  have b: "ok (fst ?begin)" and t: "offlineThreshold (sim_config 5) = 5"
    and d0: "snd ?begin = sim_fail_reads 0"
    by (simp_all add: sim_defs ok_def Let_def)
  have keep: "initialized (sim_fail_reads k)
      \<and> i2cWriteRead (config (sim_fail_reads k)) = Some sim_writeRead" for k
  proof (induction k)
    case 0
    show ?case
      by (simp add: sim_driver_def sim_config_def begin_BME280_def new_BME280_def Let_def)
  next
    case (Suc k)
    have "initialized (fst (snd (snd (readRegs sim_millis (sim_fail_reads k) 0xF7 (Some [0, 0]) 2
          (sim_world [(bus_fault, [])]))))) \<and>
        i2cWriteRead (config (fst (snd (snd (readRegs sim_millis (sim_fail_reads k) 0xF7
          (Some [0, 0]) 2 (sim_world [(bus_fault, [])])))))) = Some sim_writeRead"
      by (rule readRegs_keeps) (simp_all add: Suc.IH updateHealth_def Let_def)
    then show ?case
      by (simp add: sim_read_def)
  qed
  have status: "fst (sim_read (sim_fail_reads k) (st, bs)) = st" if "\<not> untracked st" for k st bs
    using keep [of k] that
    by (simp add: sim_read_def readRegs_def i2cWriteReadTracked_def i2cWriteReadRaw_def
        sim_writeRead_def sim_world_def Let_def split: prod.splits)
      (metis updateHealth_status fst_conv)
  have fault: "tracked_failure bus_fault"
    by (simp add: tracked_failure_def ok_def untracked_def bus_fault_def Status_Error_def)
  have good: "ok Status_Ok"
    by (simp add: ok_def Status_Ok_def)
  have failing: "readRegs sim_millis (sim_fail_reads k) 0xF7 (Some [0, 0]) 2
        (sim_world [(bus_fault, [])])
      = (bus_fault, fst (snd (sim_read (sim_fail_reads k) (bus_fault, []))),
         sim_fail_reads (Suc k), snd (snd (snd (sim_read (sim_fail_reads k) (bus_fault, [])))))"
    for k
    using status [of bus_fault k "[]"] fault
    by (simp add: sim_read_def tracked_failure_def prod_eq_iff)
  have passing: "readRegs sim_millis (sim_fail_reads k) 0xF7 (Some [0, 0]) 2
        (sim_world [(Status_Ok, [1, 2])])
      = (Status_Ok, fst (snd (sim_read (sim_fail_reads k) (Status_Ok, [1, 2]))),
         fst (snd (snd (sim_read (sim_fail_reads k) (Status_Ok, [1, 2])))),
         snd (snd (snd (sim_read (sim_fail_reads k) (Status_Ok, [1, 2])))))"
    for k
    using status [of Status_Ok k "[1, 2]"] good
    by (simp add: sim_read_def ok_not_untracked prod_eq_iff)
  note first = failing [of 0, folded d0]
  have n: "Suc (Suc (Suc (Suc 0))) = 4" "Suc 4 = 5"
    by simp_all
  show ?thesis
    using threshold_scenario [OF b t first fault failing fault failing fault failing fault
        failing fault passing good]
    unfolding n .
qed

end
